theory Spec2Isabelle
  imports
    Complex_Main
    "HOL-Library.AList"
    "HOL-Library.Char_ord"
    "HOL-Library.List_Lexorder"
    "HOL-Library.Multiset"
begin

section \<open>Python values used by the gradebook\<close>

text \<open>
  The embedding follows \<^verbatim>\<open>project1.py\<close>.

  \<^item> A Python \<^verbatim>\<open>str\<close> is a \<^typ>\<open>string\<close>; a character stands for a code point below 256.
  \<^item> A Python \<^verbatim>\<open>dict\<close> is an association list with distinct keys, in insertion order:
    \<^term>\<open>map_of\<close> is the lookup, \<^term>\<open>AList.update\<close> is \<^verbatim>\<open>d[k] = v\<close> (an existing
    key keeps its position, a new key goes to the end), \<^term>\<open>AList.delete\<close> is
    \<^verbatim>\<open>d.pop(k, None)\<close>, \<^term>\<open>map snd\<close> is \<^verbatim>\<open>d.values()\<close>.
  \<^item> A score is a \<^typ>\<open>real\<close>: sums, quotients and comparisons are exact. The rounding of
    binary floating point, infinities and NaN are not part of the model.
  \<^item> A method that mutates its object returns the outcome together with the object as it is
    after the call, also when the call raises.
\<close>

type_synonym ('k, 'v) dict = "('k \<times> 'v) list"

datatype error = AssertionError | ValueError

subsection \<open>\<^verbatim>\<open>str.strip\<close>, \<^verbatim>\<open>str.lower\<close> and the \<^verbatim>\<open>in\<close> test on strings\<close>

definition is_space :: "char \<Rightarrow> bool" where
  "is_space c =
     (let n = (of_char c :: nat)
      in (9 \<le> n \<and> n \<le> 13) \<or> (28 \<le> n \<and> n \<le> 32) \<or> n = 133 \<or> n = 160)"

definition strip :: "string \<Rightarrow> string" where
  "strip s = rev (dropWhile is_space (rev (dropWhile is_space s)))"

definition lower_char :: "char \<Rightarrow> char" where
  "lower_char c =
     (let n = (of_char c :: nat)
      in if (65 \<le> n \<and> n \<le> 90) \<or> (192 \<le> n \<and> n \<le> 222 \<and> n \<noteq> 215)
         then char_of (n + 32) else c)"

definition lower :: "string \<Rightarrow> string" where
  "lower s = map lower_char s"

fun starts_with :: "string \<Rightarrow> string \<Rightarrow> bool" where
  "starts_with [] t = True"
| "starts_with (c # q) [] = False"
| "starts_with (c # q) (d # t) = (c = d \<and> starts_with q t)"

fun str_in :: "string \<Rightarrow> string \<Rightarrow> bool" where
  "str_in q [] = (q = [])"
| "str_in q (d # t) = (starts_with q (d # t) \<or> str_in q t)"

section \<open>Student\<close>

record student =
  name :: string
  roll :: int
  marks :: "(string, real) dict"

text \<open>\<^verbatim>\<open>Student.__init__\<close>; \<^verbatim>\<open>marks or {}\<close> turns both \<^verbatim>\<open>None\<close> and the empty dict into
  the empty dict.\<close>

definition Student_init :: "string \<Rightarrow> int \<Rightarrow> (string, real) dict option \<Rightarrow> student" where
  "Student_init nm r ms =
     \<lparr> name = strip nm,
       roll = r,
       marks = (case ms of None \<Rightarrow> [] | Some m \<Rightarrow> if m = [] then [] else m) \<rparr>"

text \<open>\<^verbatim>\<open>Student.set_mark\<close>: the assertion comes before the assignment.\<close>

definition set_mark :: "student \<Rightarrow> string \<Rightarrow> real \<Rightarrow> (error + unit) \<times> student" where
  "set_mark s subject mark =
     (if 0 \<le> mark \<and> mark \<le> 100
      then (Inr (), s\<lparr>marks := AList.update (strip subject) mark (marks s)\<rparr>)
      else (Inl AssertionError, s))"

text \<open>\<^verbatim>\<open>Student.get_average\<close>.\<close>

definition get_average :: "student \<Rightarrow> real option" where
  "get_average s =
     (if marks s = [] then None
      else (let total = sum_list (map snd (marks s))
            in Some (total / real (length (marks s)))))"

text \<open>\<^verbatim>\<open>Student.to_dict\<close> and \<^verbatim>\<open>Student.from_dict\<close>. The dictionary has the three keys
  \<^verbatim>\<open>name\<close>, \<^verbatim>\<open>roll\<close> and \<^verbatim>\<open>marks\<close>; \<^verbatim>\<open>from_dict\<close> reads \<^verbatim>\<open>marks\<close> with
  \<^verbatim>\<open>d.get("marks", {})\<close>, so that key may be missing. Entries of other shapes are outside
  the model.\<close>

record student_dict =
  d_name :: string
  d_roll :: int
  d_marks :: "(string, real) dict option"

definition to_dict :: "student \<Rightarrow> student_dict" where
  "to_dict s = \<lparr> d_name = name s, d_roll = roll s, d_marks = Some (marks s) \<rparr>"

definition from_dict :: "student_dict \<Rightarrow> student" where
  "from_dict d =
     Student_init (d_name d) (d_roll d)
       (Some (case d_marks d of None \<Rightarrow> [] | Some m \<Rightarrow> m))"

section \<open>Gradebook\<close>

record gradebook =
  students :: "(int, student) dict"

definition Gradebook_init :: gradebook where
  "Gradebook_init = \<lparr> students = [] \<rparr>"

definition add_student :: "gradebook \<Rightarrow> student \<Rightarrow> (error + unit) \<times> gradebook" where
  "add_student gb s =
     (if map_of (students gb) (roll s) \<noteq> None
      then (Inl ValueError, gb)
      else (Inr (), gb\<lparr>students := AList.update (roll s) s (students gb)\<rparr>))"

definition get_student :: "gradebook \<Rightarrow> int \<Rightarrow> student option" where
  "get_student gb r = map_of (students gb) r"

definition delete_student :: "gradebook \<Rightarrow> int \<Rightarrow> bool \<times> gradebook" where
  "delete_student gb r =
     (map_of (students gb) r \<noteq> None, gb\<lparr>students := AList.delete r (students gb)\<rparr>)"

text \<open>\<^verbatim>\<open>edit_student_name\<close> assigns to the name of the object the dictionary holds: the
  entry keeps its key and its position.\<close>

definition edit_student_name :: "gradebook \<Rightarrow> int \<Rightarrow> string \<Rightarrow> bool \<times> gradebook" where
  "edit_student_name gb r new_name =
     (case get_student gb r of
        None \<Rightarrow> (False, gb)
      | Some s \<Rightarrow>
          (True, gb\<lparr>students := AList.update r (s\<lparr>name := strip new_name\<rparr>) (students gb)\<rparr>))"

definition search_by_name :: "gradebook \<Rightarrow> string \<Rightarrow> student list" where
  "search_by_name gb name_substring =
     (let q = lower (strip name_substring)
      in filter (\<lambda>s. str_in q (lower (name s))) (map snd (students gb)))"

text \<open>\<^verbatim>\<open>list_all\<close>: \<^verbatim>\<open>sorted\<close> is stable; so is \<^term>\<open>sort_key\<close>.\<close>

definition list_all_students :: "gradebook \<Rightarrow> student list" where
  "list_all_students gb = sort_key roll (map snd (students gb))"

subsection \<open>Statistics\<close>

definition class_average :: "gradebook \<Rightarrow> real option" where
  "class_average gb =
     (let avgs = concat (map (\<lambda>s. case get_average s of None \<Rightarrow> [] | Some a \<Rightarrow> [a])
                          (map snd (students gb)))
      in if avgs = [] then None else Some (sum_list avgs / real (length avgs)))"

text \<open>\<^verbatim>\<open>s.get_average() or 0.0\<close>: \<^verbatim>\<open>None\<close> and a zero average both give \<^verbatim>\<open>0.0\<close>.\<close>

definition or_zero :: "real option \<Rightarrow> real" where
  "or_zero avg = (case avg of None \<Rightarrow> 0 | Some a \<Rightarrow> if a = 0 then 0 else a)"

text \<open>\<^verbatim>\<open>xs[:n]\<close>: a negative \<^verbatim>\<open>n\<close> counts from the end.\<close>

definition slice_to :: "int \<Rightarrow> 'a list \<Rightarrow> 'a list" where
  "slice_to n xs =
     (if 0 \<le> n then take (nat n) xs else take (length xs - nat (- n)) xs)"

text \<open>\<^verbatim>\<open>scored.sort(key=lambda x: x[1], reverse=True)\<close>: a stable sort in descending order of
  the key (elements with equal keys keep their order), which is the stable ascending sort
  on the negated key.\<close>

definition top_n_students :: "gradebook \<Rightarrow> int \<Rightarrow> (student \<times> real) list" where
  "top_n_students gb n =
     (let scored = map (\<lambda>s. (s, or_zero (get_average s))) (map snd (students gb))
      in slice_to n (sort_key (\<lambda>x. - snd x) scored))"

text \<open>\<^verbatim>\<open>buckets[k] += 1\<close>; the five keys are there from the start, so the lookup never
  fails in \<^verbatim>\<open>grade_distribution\<close>.\<close>

definition incr :: "(string, nat) dict \<Rightarrow> string \<Rightarrow> (string, nat) dict" where
  "incr buckets k =
     (case map_of buckets k of
        None \<Rightarrow> buckets
      | Some c \<Rightarrow> AList.update k (c + 1) buckets)"

fun grade_loop :: "(string, nat) dict \<Rightarrow> student list \<Rightarrow> (string, nat) dict" where
  "grade_loop buckets [] = buckets"
| "grade_loop buckets (s # ss) =
     grade_loop
       (case get_average s of
          None \<Rightarrow> incr buckets ''F''
        | Some avg \<Rightarrow>
            if avg \<ge> 80 then incr buckets ''A''
            else if avg \<ge> 60 then incr buckets ''B''
            else if avg \<ge> 50 then incr buckets ''C''
            else if avg \<ge> 40 then incr buckets ''D''
            else incr buckets ''F'')
       ss"

definition grade_distribution :: "gradebook \<Rightarrow> (string, nat) dict" where
  "grade_distribution gb =
     grade_loop [(''A'', 0), (''B'', 0), (''C'', 0), (''D'', 0), (''F'', 0)]
       (map snd (students gb))"

subsection \<open>Persistence\<close>

text \<open>\<^verbatim>\<open>save_to_json\<close> hands the list of dictionaries to \<^verbatim>\<open>json.dump\<close> and
  \<^verbatim>\<open>load_from_json\<close> gets it back from \<^verbatim>\<open>json.load\<close>; the document is that list.\<close>

definition save_to_json :: "gradebook \<Rightarrow> student_dict list" where
  "save_to_json gb = map to_dict (list_all_students gb)"

fun load_from_json :: "gradebook \<Rightarrow> student_dict list \<Rightarrow> gradebook" where
  "load_from_json gb [] = gb"
| "load_from_json gb (item # data) =
     (let s = from_dict item
      in load_from_json (gb\<lparr>students := AList.update (roll s) s (students gb)\<rparr>) data)"

text \<open>\<^verbatim>\<open>export_to_csv\<close> up to the rows it hands to \<^verbatim>\<open>csv.writer\<close>. A cell is an integer,
  a string or a score. The parameter \<open>fmt2f\<close> stands for Python's format \<^verbatim>\<open>.2f\<close>.\<close>

datatype cell = CInt int | CStr string | CNum real

definition all_subjects :: "gradebook \<Rightarrow> string list" where
  "all_subjects gb =
     sort (remdups (concat (map (\<lambda>s. map fst (marks s)) (map snd (students gb)))))"

definition csv_row :: "(real \<Rightarrow> string) \<Rightarrow> string list \<Rightarrow> student \<Rightarrow> cell list" where
  "csv_row fmt2f subjects s =
     [CInt (roll s), CStr (name s)]
     @ map (\<lambda>sub. case map_of (marks s) sub of None \<Rightarrow> CStr [] | Some m \<Rightarrow> CNum m) subjects
     @ [case get_average s of None \<Rightarrow> CStr [] | Some avg \<Rightarrow> CStr (fmt2f avg)]"

definition export_to_csv :: "(real \<Rightarrow> string) \<Rightarrow> gradebook \<Rightarrow> string list \<times> cell list list" where
  "export_to_csv fmt2f gb =
     (let subjects = all_subjects gb;
          headers = [''roll'', ''name''] @ subjects @ [''average'']
      in (headers, map (csv_row fmt2f subjects) (list_all_students gb)))"

text \<open>The three students of \<^verbatim>\<open>sample_data\<close>.\<close>

definition sample_data :: gradebook where
  "sample_data =
     fold (\<lambda>s gb. snd (add_student gb s))
       [Student_init ''Aman Koli'' 101
          (Some [(''Math'', 85), (''Physics'', 78), (''Chemistry'', 90)]),
        Student_init ''Bala Rao'' 102
          (Some [(''Math'', 65), (''Physics'', 70)]),
        Student_init ''Chitra Sen'' 103
          (Some [(''Math'', 92), (''English'', 88), (''Biology'', 85)])]
       Gradebook_init"

section \<open>Invariant and specification-level notions\<close>

text \<open>What holds of every gradebook that the class builds: the keys of the dictionary are
  distinct, every student sits under its own roll, and every name is its own trim (the
  constructor and \<^verbatim>\<open>edit_student_name\<close> are the only places that assign a name).\<close>

definition gb_inv :: "gradebook \<Rightarrow> bool" where
  "gb_inv gb =
     (distinct (map fst (students gb)) \<and>
      list_all (\<lambda>(k, s). roll s = k \<and> strip (name s) = name s) (students gb))"

text \<open>The class average in the words of the specification: the mean of the averages of
  the students that have at least one mark.\<close>

definition mean :: "real list \<Rightarrow> real" where
  "mean xs = sum_list xs / real (length xs)"

definition class_average_spec :: "gradebook \<Rightarrow> real option" where
  "class_average_spec gb =
     (let with_marks = filter (\<lambda>s. marks s \<noteq> []) (map snd (students gb))
      in if with_marks = [] then None
         else Some (mean (map (\<lambda>s. mean (map snd (marks s))) with_marks)))"

text \<open>The bucket table of the specification, one condition per bucket.\<close>

definition in_bucket :: "string \<Rightarrow> student \<Rightarrow> bool" where
  "in_bucket b s =
     (case get_average s of
        None \<Rightarrow> b = ''F''
      | Some avg \<Rightarrow>
          (b = ''A'' \<and> 80 \<le> avg) \<or>
          (b = ''B'' \<and> 60 \<le> avg \<and> avg < 80) \<or>
          (b = ''C'' \<and> 50 \<le> avg \<and> avg < 60) \<or>
          (b = ''D'' \<and> 40 \<le> avg \<and> avg < 50) \<or>
          (b = ''F'' \<and> avg < 40))"

text \<open>The ranking score of the specification: the average if there is one, else zero.\<close>

definition score :: "student \<Rightarrow> real" where
  "score s = (case get_average s of None \<Rightarrow> 0 | Some a \<Rightarrow> a)"

section \<open>Auxiliary facts\<close>

subsection \<open>Trimming, substrings and dictionary updates\<close>

lemma strip_Nil_iff: "strip s = [] \<longleftrightarrow> (\<forall>c\<in>set s. is_space c)"
proof -
  let ?t = "dropWhile is_space s"
  have "strip s = [] \<longleftrightarrow> (\<forall>c\<in>set ?t. is_space c)"
    by (simp add: strip_def)
  also have "\<dots> \<longleftrightarrow> ?t = []"
  proof
    assume a: "\<forall>c\<in>set ?t. is_space c"
    show "?t = []"
    proof (rule ccontr)
      assume "?t \<noteq> []"
      then have "\<not> is_space (hd ?t)" "hd ?t \<in> set ?t"
        by (simp_all add: hd_dropWhile)
      with a show False by blast
    qed
  next
    assume "?t = []"
    then show "\<forall>c\<in>set ?t. is_space c" by (metis empty_iff list.set(1))
  qed
  also have "\<dots> \<longleftrightarrow> (\<forall>c\<in>set s. is_space c)"
    by simp
  finally show ?thesis .
qed

lemma strip_no_outer_space:
  "strip s = [] \<or> (\<not> is_space (hd (strip s)) \<and> \<not> is_space (last (strip s)))"
proof (cases "strip s = []")
  case True
  then show ?thesis by simp
next
  case False
  let ?t = "dropWhile is_space s"
  let ?r = "dropWhile is_space (rev ?t)"
  have u: "strip s = rev ?r" by (simp add: strip_def)
  from False u have r: "?r \<noteq> []" by simp
  then have t: "?t \<noteq> []" by (auto dest: set_dropWhileD)
  have "\<not> is_space (hd ?r)" using r by (rule hd_dropWhile)
  then have l: "\<not> is_space (last (strip s))" using r u by (simp add: last_rev)
  have ht: "\<not> is_space (hd ?t)" using t by (rule hd_dropWhile)
  have "last ?r = last (rev ?t)"
  proof (rule dropWhile_last)
    show "hd ?t \<in> set (rev ?t)" using t by simp
    show "\<not> is_space (hd ?t)" by (rule ht)
  qed
  then have "hd (strip s) = hd ?t" using r t u by (simp add: hd_rev last_rev)
  with ht l show ?thesis by simp
qed

lemma strip_fixed_iff:
  "strip s = s \<longleftrightarrow> s = [] \<or> (\<not> is_space (hd s) \<and> \<not> is_space (last s))"
proof
  assume "strip s = s"
  then show "s = [] \<or> (\<not> is_space (hd s) \<and> \<not> is_space (last s))"
    using strip_no_outer_space [of s] by simp
next
  assume a: "s = [] \<or> (\<not> is_space (hd s) \<and> \<not> is_space (last s))"
  show "strip s = s"
  proof (cases "s = []")
    case True
    then show ?thesis by (simp add: strip_def)
  next
    case False
    with a have h: "\<not> is_space (hd s)" and l: "\<not> is_space (last s)" by simp_all
    from False h have 1: "dropWhile is_space s = s"
      by (simp add: dropWhile_eq_self_iff)
    from False l have 2: "dropWhile is_space (rev s) = rev s"
      by (simp add: dropWhile_eq_self_iff hd_rev)
    show ?thesis by (simp add: strip_def 1 2)
  qed
qed

lemma strip_idem: "strip (strip s) = strip s"
  using strip_no_outer_space [of s] by (simp add: strip_fixed_iff)

lemma update_fresh: "k \<notin> fst ` set al \<Longrightarrow> AList.update k v al = al @ [(k, v)]"
  by (induction al) auto

lemma starts_with_Nil: "starts_with [] t"
  by simp

lemma str_in_Nil: "str_in [] t"
  by (cases t) simp_all

subsection \<open>The invariant and the snapshot\<close>

lemma Student_init_trimmed: "strip (name (Student_init nm r ms)) = name (Student_init nm r ms)"
  by (simp add: Student_init_def strip_idem)

lemma from_dict_to_dict: "strip (name s) = name s \<Longrightarrow> from_dict (to_dict s) = s"
  by (simp add: from_dict_def to_dict_def Student_init_def)

lemma gb_inv_init: "gb_inv Gradebook_init"
  by (simp add: gb_inv_def Gradebook_init_def)

lemma gb_inv_add_student:
  assumes "gb_inv gb" and "strip (name s) = name s"
  shows "gb_inv (snd (add_student gb s))"
proof (cases "map_of (students gb) (roll s)")
  case None
  then have "roll s \<notin> fst ` set (students gb)" by (simp add: map_of_eq_None_iff)
  then have "students (snd (add_student gb s)) = students gb @ [(roll s, s)]"
    using None by (simp add: add_student_def update_fresh)
  with assms \<open>roll s \<notin> fst ` set (students gb)\<close> show ?thesis
    by (simp add: gb_inv_def)
next
  case (Some a)
  with assms show ?thesis by (simp add: add_student_def)
qed

lemma list_all_update:
  "list_all P al \<Longrightarrow> P (k, v) \<Longrightarrow> list_all P (AList.update k v al)"
  by (induction al) auto

lemma gb_inv_edit_student_name:
  assumes "gb_inv gb"
  shows "gb_inv (snd (edit_student_name gb r new_name))"
proof (cases "get_student gb r")
  case None
  with assms show ?thesis by (simp add: edit_student_name_def)
next
  case (Some s)
  then have "(r, s) \<in> set (students gb)"
    by (simp add: get_student_def map_of_SomeD)
  with assms have "roll s = r" by (auto simp: gb_inv_def list_all_iff)
  with assms Some show ?thesis
    by (simp add: edit_student_name_def gb_inv_def distinct_update list_all_update strip_idem)
qed

lemma gb_inv_delete_student:
  assumes "gb_inv gb"
  shows "gb_inv (snd (delete_student gb r))"
proof -
  have "set (AList.delete r (students gb)) \<subseteq> set (students gb)"
    by (auto simp: AList.delete_eq)
  with assms show ?thesis
    by (auto simp: delete_student_def gb_inv_def distinct_delete list_all_iff)
qed

lemma load_from_json_append:
  "distinct (map roll ss) \<Longrightarrow>
   \<forall>s\<in>set ss. roll s \<notin> fst ` set (students gb) \<and> strip (name s) = name s \<Longrightarrow>
   students (load_from_json gb (map to_dict ss)) = students gb @ map (\<lambda>s. (roll s, s)) ss"
proof (induction ss arbitrary: gb)
  case Nil
  then show ?case by simp
next
  case (Cons s ss)
  let ?gb = "gb\<lparr>students := students gb @ [(roll s, s)]\<rparr>"
  from Cons.prems have fresh: "roll s \<notin> fst ` set (students gb)"
    and tr: "strip (name s) = name s" by simp_all
  have step: "load_from_json gb (map to_dict (s # ss)) = load_from_json ?gb (map to_dict ss)"
    by (simp add: from_dict_to_dict [OF tr] update_fresh [OF fresh])
  have "students (load_from_json ?gb (map to_dict ss))
      = students ?gb @ map (\<lambda>s. (roll s, s)) ss"
  proof (rule Cons.IH)
    show "distinct (map roll ss)" using Cons.prems by simp
    show "\<forall>t\<in>set ss. roll t \<notin> fst ` set (students ?gb) \<and> strip (name t) = name t"
      using Cons.prems by (auto simp: image_iff)
  qed
  with step show ?case by simp
qed

lemma gb_inv_values:
  assumes "gb_inv gb"
  shows "map (\<lambda>s. (roll s, s)) (map snd (students gb)) = students gb"
    and "distinct (map roll (map snd (students gb)))"
    and "\<forall>s\<in>set (map snd (students gb)). strip (name s) = name s"
proof -
  from assms have a: "\<forall>p\<in>set (students gb). roll (snd p) = fst p \<and> strip (name (snd p)) = name (snd p)"
    by (auto simp: gb_inv_def list_all_iff)
  then show 1: "map (\<lambda>s. (roll s, s)) (map snd (students gb)) = students gb"
    by (simp add: map_idI)
  have e: "map (roll \<circ> snd) (students gb) = map fst (students gb)"
    using a by simp
  have "distinct (map fst (students gb))" using assms by (simp add: gb_inv_def)
  then have "distinct (map (roll \<circ> snd) (students gb))" by (simp only: e)
  then show "distinct (map roll (map snd (students gb)))" by simp
  show "\<forall>s\<in>set (map snd (students gb)). strip (name s) = name s"
    using a by simp
qed

lemma sample_students: "students sample_data =
    [(101, \<lparr>name = ''Aman Koli'', roll = 101,
            marks = [(''Math'', 85), (''Physics'', 78), (''Chemistry'', 90)]\<rparr>),
     (102, \<lparr>name = ''Bala Rao'', roll = 102, marks = [(''Math'', 65), (''Physics'', 70)]\<rparr>),
     (103, \<lparr>name = ''Chitra Sen'', roll = 103,
            marks = [(''Math'', 92), (''English'', 88), (''Biology'', 85)]\<rparr>)]"
    by (simp add: sample_data_def add_student_def Student_init_def Gradebook_init_def
        strip_def is_space_def)

lemma gb_inv_load_from_json: "gb_inv gb \<Longrightarrow> gb_inv (load_from_json gb data)"
proof (induction data arbitrary: gb)
  case Nil
  then show ?case by simp
next
  case (Cons item data)
  let ?s = "from_dict item"
  have "strip (name ?s) = name ?s" by (simp add: from_dict_def Student_init_trimmed)
  with Cons.prems have "gb_inv (gb\<lparr>students := AList.update (roll ?s) ?s (students gb)\<rparr>)"
    by (simp add: gb_inv_def distinct_update list_all_update)
  then show ?case using Cons.IH by (simp add: Let_def)
qed

lemma set_mark_keeps_name_roll:
  "name (snd (set_mark s subject m)) = name s \<and> roll (snd (set_mark s subject m)) = roll s"
  by (simp add: set_mark_def)

subsection \<open>Averages, buckets and ranking\<close>

lemma averages_of_students:
  "concat (map (\<lambda>s. case get_average s of None \<Rightarrow> [] | Some a \<Rightarrow> [a]) vs)
     = map (\<lambda>s. mean (map snd (marks s))) (filter (\<lambda>s. marks s \<noteq> []) vs)"
  by (induction vs) (simp_all add: get_average_def mean_def)

lemma grade_loop_counts:
  "grade_loop [(''A'', a), (''B'', b), (''C'', c), (''D'', d), (''F'', f)] vs =
     [(''A'', a + length (filter (in_bucket ''A'') vs)),
      (''B'', b + length (filter (in_bucket ''B'') vs)),
      (''C'', c + length (filter (in_bucket ''C'') vs)),
      (''D'', d + length (filter (in_bucket ''D'') vs)),
      (''F'', f + length (filter (in_bucket ''F'') vs))]"
proof (induction vs arbitrary: a b c d f)
  case Nil
  then show ?case by simp
next
  case (Cons s vs)
  show ?case
  proof (cases "get_average s")
    case None
    then show ?thesis by (simp add: Cons.IH incr_def in_bucket_def)
  next
    case (Some avg)
    then show ?thesis by (simp add: Cons.IH incr_def in_bucket_def)
  qed
qed

lemma in_bucket_unique: "\<exists>!b. in_bucket b s"
proof (cases "get_average s")
  case None
  then show ?thesis by (simp add: in_bucket_def)
next
  case (Some avg)
  consider "80 \<le> avg" | "60 \<le> avg" "avg < 80" | "50 \<le> avg" "avg < 60"
    | "40 \<le> avg" "avg < 50" | "avg < 40" by linarith
  then show ?thesis
  proof cases
    case 1 with Some show ?thesis by (intro ex1I [of _ "''A''"]) (auto simp: in_bucket_def)
  next
    case 2 with Some show ?thesis by (intro ex1I [of _ "''B''"]) (auto simp: in_bucket_def)
  next
    case 3 with Some show ?thesis by (intro ex1I [of _ "''C''"]) (auto simp: in_bucket_def)
  next
    case 4 with Some show ?thesis by (intro ex1I [of _ "''D''"]) (auto simp: in_bucket_def)
  next
    case 5 with Some show ?thesis by (intro ex1I [of _ "''F''"]) (auto simp: in_bucket_def)
  qed
qed

lemma bucket_sizes_sum:
  "length (filter (in_bucket ''A'') vs) + length (filter (in_bucket ''B'') vs)
   + length (filter (in_bucket ''C'') vs) + length (filter (in_bucket ''D'') vs)
   + length (filter (in_bucket ''F'') vs) = length vs"
proof (induction vs)
  case Nil
  then show ?case by simp
next
  case (Cons s vs)
  show ?case
  proof (cases "get_average s")
    case None
    with Cons show ?thesis by (simp add: in_bucket_def)
  next
    case (Some avg)
    with Cons show ?thesis by (simp add: in_bucket_def)
  qed
qed

lemma or_zero_score: "or_zero (get_average s) = score s"
  by (simp add: or_zero_def score_def split: option.splits)

lemma sorted_desc_sort_key_neg:
  fixes f :: "'a \<Rightarrow> real"
  shows "sorted_wrt (\<lambda>x y. f y \<le> f x) (sort_key (\<lambda>x. - f x) xs)"
proof -
  have "sorted (map (\<lambda>x. - f x) (sort_key (\<lambda>x. - f x) xs))" by (rule sorted_sort_key)
  then have "sorted_wrt (\<lambda>x y. - f x \<le> - f y) (sort_key (\<lambda>x. - f x) xs)"
    by (simp only: sorted_map)
  then show ?thesis by (simp only: neg_le_iff_le)
qed

subsection \<open>The table\<close>

lemma sample_subjects:
  "all_subjects sample_data = [''Biology'', ''Chemistry'', ''English'', ''Math'', ''Physics'']"
  by (simp add: all_subjects_def sample_students)

lemma all_subjects_props:
  "sorted (all_subjects gb) \<and> distinct (all_subjects gb) \<and>
   set (all_subjects gb) = (\<Union>s\<in>set (map snd (students gb)). fst ` set (marks s))"
  by (auto simp: all_subjects_def)

lemma list_all_students_props:
  "sorted (map roll (list_all_students gb)) \<and>
   mset (list_all_students gb) = mset (map snd (students gb)) \<and>
   length (list_all_students gb) = length (students gb)"
  by (simp add: list_all_students_def)

lemma csv_row_cells:
  "length (csv_row fmt2f subs s) = length subs + 3 \<and>
   csv_row fmt2f subs s ! 0 = CInt (roll s) \<and>
   csv_row fmt2f subs s ! 1 = CStr (name s) \<and>
   (\<forall>i<length subs. csv_row fmt2f subs s ! (i + 2)
       = (case map_of (marks s) (subs ! i) of None \<Rightarrow> CStr [] | Some m \<Rightarrow> CNum m)) \<and>
   csv_row fmt2f subs s ! (length subs + 2)
       = (case get_average s of None \<Rightarrow> CStr [] | Some avg \<Rightarrow> CStr (fmt2f avg))"
  by (simp add: csv_row_def nth_append)

section \<open>Theorems\<close>

text \<open>
  C2. For every record, every subject and every score outside the closed interval from 0
  to 100, \<open>set_mark\<close> raises the assertion error and the record after the call is the record
  before it: the marks are unchanged and the score is not stored.
\<close>

theorem set_mark_out_of_range:
  "m < 0 \<or> 100 < m \<Longrightarrow>
     fst (set_mark s subject m) = Inl AssertionError \<and>
     snd (set_mark s subject m) = s \<and>
     marks (snd (set_mark s subject m)) = marks s"
  by (auto simp: set_mark_def)

theorem set_mark_out_of_range_witness:
  "((100.5::real) < 0 \<or> 100 < (100.5::real)) \<and>
   fst (set_mark \<lparr>name = ''Amy'', roll = 101, marks = [(''Math'', 85)]\<rparr> '' Physics '' 100.5)
     = Inl AssertionError \<and>
   marks (snd (set_mark \<lparr>name = ''Amy'', roll = 101, marks = [(''Math'', 85)]\<rparr> '' Physics '' 100.5))
     = [(''Math'', 85)]"
  using set_mark_out_of_range
    [of "100.5" "\<lparr>name = ''Amy'', roll = 101, marks = [(''Math'', 85)]\<rparr>" "'' Physics ''"]
  by simp

text \<open>
  C7. For every record, every subject and every score from 0 to 100, \<open>set_mark\<close> succeeds,
  keeps name and roll, and stores the score under the trimmed subject, so that reading the
  trimmed subject afterwards gives exactly that score. The average of a record is the sum
  of the stored values divided by their number, and there is no average when there are no
  marks.
\<close>

theorem set_mark_valid:
  assumes "0 \<le> m" and "m \<le> 100"
  shows "fst (set_mark s subject m) = Inr () \<and>
     name (snd (set_mark s subject m)) = name s \<and>
     roll (snd (set_mark s subject m)) = roll s \<and>
     map_of (marks (snd (set_mark s subject m))) = (map_of (marks s))(strip subject \<mapsto> m) \<and>
     map_of (marks (snd (set_mark s subject m))) (strip subject) = Some m \<and>
     get_average (snd (set_mark s subject m)) =
       Some (sum_list (map snd (marks (snd (set_mark s subject m))))
             / real (length (marks (snd (set_mark s subject m))))) \<and>
     get_average t =
       (if marks t = [] then None
        else Some (sum_list (map snd (marks t)) / real (length (marks t))))"
  using assms by (simp add: set_mark_def get_average_def update_conv')

theorem set_mark_valid_witness:
  "(0::real) \<le> 78.5 \<and> (78.5::real) \<le> 100 \<and>
   map_of (marks (snd (set_mark \<lparr>name = ''Amy'', roll = 101, marks = [(''Math'', 85)]\<rparr>
                         '' Physics '' 78.5))) ''Physics'' = Some 78.5 \<and>
   get_average (snd (set_mark \<lparr>name = ''Amy'', roll = 101, marks = [(''Math'', 85)]\<rparr>
                         '' Physics '' 78.5)) = Some 81.75"
proof -
  have a: "(0::real) \<le> 78.5" and b: "(78.5::real) \<le> 100" by simp_all
  have c: "strip '' Physics '' = ''Physics''"
    by (simp add: strip_def is_space_def)
  show ?thesis
    using a b c
      set_mark_valid [OF a b, of "\<lparr>name = ''Amy'', roll = 101, marks = [(''Math'', 85)]\<rparr>"
        "'' Physics ''" "\<lparr>name = ''Amy'', roll = 101, marks = []\<rparr>"]
    by (simp add: set_mark_def)
qed

text \<open>
  C3. When the roll of the record is already a key of the gradebook, \<open>add_student\<close> raises
  the value error and the gradebook after the call is the gradebook before it. When the
  roll is absent, the call succeeds and the record is appended under its roll; adding a
  second record with the same roll then fails and changes nothing.
\<close>

theorem add_student_duplicate_or_insert:
  "(map_of (students gb) (roll s) \<noteq> None \<longrightarrow>
      add_student gb s = (Inl ValueError, gb)) \<and>
   (map_of (students gb) (roll s) = None \<longrightarrow>
      fst (add_student gb s) = Inr () \<and>
      students (snd (add_student gb s)) = students gb @ [(roll s, s)] \<and>
      map_of (students (snd (add_student gb s))) = (map_of (students gb))(roll s \<mapsto> s) \<and>
      (roll s' = roll s \<longrightarrow>
         add_student (snd (add_student gb s)) s' = (Inl ValueError, snd (add_student gb s))))"
proof (cases "map_of (students gb) (roll s)")
  case None
  then have fresh: "roll s \<notin> fst ` set (students gb)"
    by (simp add: map_of_eq_None_iff)
  have 1: "add_student gb s = (Inr (), gb\<lparr>students := AList.update (roll s) s (students gb)\<rparr>)"
    using None by (simp add: add_student_def)
  have 2: "map_of (students (snd (add_student gb s))) = (map_of (students gb))(roll s \<mapsto> s)"
    by (simp add: 1 update_conv')
  have 3: "students (snd (add_student gb s)) = students gb @ [(roll s, s)]"
    by (simp add: 1 update_fresh [OF fresh])
  have 4: "roll s' = roll s \<longrightarrow>
      add_student (snd (add_student gb s)) s' = (Inl ValueError, snd (add_student gb s))"
    using 2 by (simp add: add_student_def)
  from None 1 2 3 4 show ?thesis by simp
next
  case (Some a)
  then show ?thesis by (simp add: add_student_def)
qed

theorem add_student_duplicate_or_insert_witness:
  "map_of (students sample_data) 102 \<noteq> None \<and>
   add_student sample_data (Student_init ''Bob'' 102 None) = (Inl ValueError, sample_data) \<and>
   map_of (students sample_data) 104 = None \<and>
   students (snd (add_student sample_data (Student_init ''Dev'' 104 None)))
     = students sample_data @ [(104, \<lparr>name = ''Dev'', roll = 104, marks = []\<rparr>)]"
proof -
  note s = sample_students
  have b: "roll (Student_init ''Bob'' 102 None) = 102"
    and d: "Student_init ''Dev'' 104 None = \<lparr>name = ''Dev'', roll = 104, marks = []\<rparr>"
    by (simp_all add: Student_init_def strip_def is_space_def)
  have h1: "map_of (students sample_data) 102 \<noteq> None"
    and h2: "map_of (students sample_data) 104 = None"
    by (simp_all add: s)
  show ?thesis
    using h1 h2 b d
      add_student_duplicate_or_insert [of sample_data "Student_init ''Bob'' 102 None"]
      add_student_duplicate_or_insert [of sample_data "Student_init ''Dev'' 104 None"]
    by simp
qed

text \<open>
  C10. A query that is empty after trimming matches every name: \<open>search_by_name\<close> returns
  every record of the gradebook, in the order of the dictionary.
\<close>

theorem search_by_name_blank:
  "strip q = [] \<Longrightarrow> search_by_name gb q = map snd (students gb)"
  by (simp add: search_by_name_def lower_def str_in_Nil)

theorem search_by_name_blank_witness:
  "strip ''  '' = [] \<and> search_by_name sample_data ''  '' = map snd (students sample_data)
   \<and> length (search_by_name sample_data ''  '') = 3"
proof -
  have h: "strip ''  '' = []" by (simp add: strip_def is_space_def)
  have "length (students sample_data) = 3"
    by (simp add: sample_data_def add_student_def Student_init_def Gradebook_init_def)
  with h search_by_name_blank [OF h, of sample_data] show ?thesis by simp
qed

text \<open>
  C1. For every gradebook that satisfies the invariant (distinct keys, every record under
  its own roll, every name trimmed), loading the document that \<open>save_to_json\<close> produces
  into a fresh gradebook gives the same mapping from rolls to records: the same set of
  rolls, and under each roll the same name, roll and marks. The loaded dictionary holds the
  records in ascending order of roll and satisfies the invariant again.
\<close>

theorem load_save_roundtrip:
  assumes "gb_inv gb"
  shows "map_of (students (load_from_json Gradebook_init (save_to_json gb)))
           = map_of (students gb) \<and>
         fst ` set (students (load_from_json Gradebook_init (save_to_json gb)))
           = fst ` set (students gb) \<and>
         (\<forall>r. get_student (load_from_json Gradebook_init (save_to_json gb)) r = get_student gb r) \<and>
         map snd (students (load_from_json Gradebook_init (save_to_json gb)))
           = list_all_students gb \<and>
         gb_inv (load_from_json Gradebook_init (save_to_json gb))"
proof -
  let ?vs = "map snd (students gb)"
  let ?ss = "list_all_students gb"
  let ?gb' = "load_from_json Gradebook_init (save_to_json gb)"
  note v = gb_inv_values [OF assms]
  have set_ss: "set ?ss = set ?vs" by (simp add: list_all_students_def)
  have d: "distinct (map roll ?ss)"
    using v(2) unfolding list_all_students_def
    by (metis distinct_map distinct_sort set_sort)
  have l: "students ?gb' = students Gradebook_init @ map (\<lambda>s. (roll s, s)) ?ss"
    unfolding save_to_json_def
  proof (rule load_from_json_append [OF d])
    show "\<forall>s\<in>set ?ss. roll s \<notin> fst ` set (students Gradebook_init) \<and> strip (name s) = name s"
      using v(3) set_ss by (simp add: Gradebook_init_def)
  qed
  then have st: "students ?gb' = map (\<lambda>s. (roll s, s)) ?ss"
    by (simp add: Gradebook_init_def)
  have keys: "map fst (students ?gb') = map roll ?ss" by (simp add: st comp_def)
  have vals: "map snd (students ?gb') = ?ss" by (simp add: st comp_def)
  have "set (students ?gb') = (\<lambda>s. (roll s, s)) ` set ?vs"
    by (simp add: st set_ss)
  also have "\<dots> = set (map (\<lambda>s. (roll s, s)) ?vs)" by (simp add: image_image)
  also have "\<dots> = set (students gb)" by (simp only: v(1))
  finally have sets: "set (students ?gb') = set (students gb)" .
  have dk: "distinct (map fst (students ?gb'))" using d keys by simp
  have dk0: "distinct (map fst (students gb))" using assms by (simp add: gb_inv_def)
  have m: "map_of (students ?gb') = map_of (students gb)"
    using map_of_inject_set [OF dk dk0] sets by simp
  have inv: "gb_inv ?gb'"
    using dk v(3) set_ss by (simp add: gb_inv_def st list_all_iff)
  show ?thesis using m sets vals inv by (simp add: get_student_def)
qed

theorem load_save_roundtrip_witness:
  "gb_inv sample_data \<and>
   map_of (students (load_from_json Gradebook_init (save_to_json sample_data)))
     = map_of (students sample_data) \<and>
   map snd (students (load_from_json Gradebook_init (save_to_json sample_data)))
     = list_all_students sample_data"
proof -
  have h: "gb_inv sample_data"
    by (simp add: gb_inv_def sample_students strip_def is_space_def)
  from load_save_roundtrip [OF h] h show ?thesis by simp
qed

text \<open>
  C9, as the code has it. Nothing checks that a name is non-empty: a name of blanks is
  trimmed to the empty string, by the constructor and by \<open>edit_student_name\<close> alike, and
  \<open>add_student\<close> takes the record.
\<close>

theorem blank_name_counterexample:
  "name (Student_init ''  '' 1 None) = [] \<and>
   add_student Gradebook_init (Student_init ''  '' 1 None)
     = (Inr (), \<lparr>students = [(1, \<lparr>name = [], roll = 1, marks = []\<rparr>)]\<rparr>) \<and>
   strip (name \<lparr>name = [], roll = 1, marks = []\<rparr>) = [] \<and>
   fst (edit_student_name sample_data 101 '' '') = True \<and>
   map_option name (get_student (snd (edit_student_name sample_data 101 '' '')) 101) = Some []"
  by (simp add: Student_init_def add_student_def Gradebook_init_def strip_def is_space_def
      edit_student_name_def get_student_def sample_students)

text \<open>
  C9, amended. The constructor and \<open>edit_student_name\<close> store the trimmed name. A stored
  name is its own trim, and it is empty exactly when the name supplied consists of
  whitespace only. Every record of a gradebook built by \<open>add_student\<close> from constructed
  records and by \<open>edit_student_name\<close> has a trimmed name.
\<close>

theorem names_are_trimmed:
  "name (Student_init nm r ms) = strip nm \<and>
   strip (name (Student_init nm r ms)) = name (Student_init nm r ms) \<and>
   (name (Student_init nm r ms) = [] \<longleftrightarrow> (\<forall>c\<in>set nm. is_space c)) \<and>
   (get_student gb k = None \<longrightarrow> edit_student_name gb k new_name = (False, gb)) \<and>
   (get_student gb k = Some s \<longrightarrow>
      fst (edit_student_name gb k new_name) = True \<and>
      get_student (snd (edit_student_name gb k new_name)) k = Some (s\<lparr>name := strip new_name\<rparr>) \<and>
      strip (strip new_name) = strip new_name \<and>
      (strip new_name = [] \<longleftrightarrow> (\<forall>c\<in>set new_name. is_space c))) \<and>
   (gb_inv gb \<longrightarrow>
      gb_inv (snd (add_student gb (Student_init nm r ms))) \<and>
      gb_inv (snd (edit_student_name gb k new_name)) \<and>
      (\<forall>t\<in>set (map snd (students (snd (add_student gb (Student_init nm r ms))))).
          strip (name t) = name t) \<and>
      (\<forall>t\<in>set (map snd (students (snd (edit_student_name gb k new_name)))).
          strip (name t) = name t))"
proof -
  have 1: "name (Student_init nm r ms) = strip nm" by (simp add: Student_init_def)
  have 2: "strip (name (Student_init nm r ms)) = name (Student_init nm r ms)"
    by (rule Student_init_trimmed)
  have 3: "name (Student_init nm r ms) = [] \<longleftrightarrow> (\<forall>c\<in>set nm. is_space c)"
    by (simp only: 1 strip_Nil_iff)
  have 4: "get_student gb k = None \<longrightarrow> edit_student_name gb k new_name = (False, gb)"
    by (simp add: edit_student_name_def)
  have 5: "get_student gb k = Some s \<longrightarrow>
      fst (edit_student_name gb k new_name) = True \<and>
      get_student (snd (edit_student_name gb k new_name)) k = Some (s\<lparr>name := strip new_name\<rparr>)"
    by (simp add: edit_student_name_def get_student_def update_conv')
  have names: "\<forall>t\<in>set (map snd (students g)). strip (name t) = name t" if "gb_inv g" for g
    using that by (auto simp: gb_inv_def list_all_iff)
  have 6: "gb_inv gb \<longrightarrow>
      gb_inv (snd (add_student gb (Student_init nm r ms))) \<and>
      gb_inv (snd (edit_student_name gb k new_name))"
    by (simp add: gb_inv_add_student [OF _ 2] gb_inv_edit_student_name)
  from 1 2 3 4 5 6 names strip_idem [of new_name] strip_Nil_iff [of new_name]
  show ?thesis by blast
qed

theorem names_are_trimmed_witness:
  "get_student sample_data 102
     = Some \<lparr>name = ''Bala Rao'', roll = 102, marks = [(''Math'', 65), (''Physics'', 70)]\<rparr> \<and>
   gb_inv sample_data \<and>
   get_student (snd (edit_student_name sample_data 102 '' Bala R. ''))  102
     = Some \<lparr>name = ''Bala R.'', roll = 102, marks = [(''Math'', 65), (''Physics'', 70)]\<rparr> \<and>
   gb_inv (snd (edit_student_name sample_data 102 '' Bala R. '')) \<and>
   name (Student_init '' Dev '' 104 None) = ''Dev''"
proof -
  have g: "get_student sample_data 102
     = Some \<lparr>name = ''Bala Rao'', roll = 102, marks = [(''Math'', 65), (''Physics'', 70)]\<rparr>"
    by (simp add: get_student_def sample_students)
  have h: "gb_inv sample_data"
    by (simp add: gb_inv_def sample_students strip_def is_space_def)
  have s: "strip '' Bala R. '' = ''Bala R.''" "strip '' Dev '' = ''Dev''"
    by (simp_all add: strip_def is_space_def)
  from g h s
    names_are_trimmed [of "'' Dev ''" 104 None sample_data 102 "'' Bala R. ''"
      "\<lparr>name = ''Bala Rao'', roll = 102, marks = [(''Math'', 65), (''Physics'', 70)]\<rparr>"]
  show ?thesis by simp
qed

text \<open>
  C5. The class average is the mean of the averages of exactly the records that have at
  least one mark: records without marks do not enter the mean, they are not counted as
  zero. There is no class average exactly when no record has a mark.
\<close>

theorem class_average_is_mean_of_averages:
  "class_average gb = class_average_spec gb \<and>
   (class_average gb = None \<longleftrightarrow> (\<forall>s\<in>set (map snd (students gb)). marks s = [])) \<and>
   (\<forall>s\<in>set (map snd (students gb)).
      marks s \<noteq> [] \<longrightarrow> get_average s = Some (mean (map snd (marks s))))"
proof -
  have 1: "class_average gb = class_average_spec gb"
    unfolding class_average_def class_average_spec_def averages_of_students Let_def
    by (simp add: mean_def)
  have 2: "class_average gb = None \<longleftrightarrow> (\<forall>s\<in>set (map snd (students gb)). marks s = [])"
    by (simp add: 1 class_average_spec_def filter_empty_conv)
  have 3: "\<forall>s\<in>set (map snd (students gb)).
      marks s \<noteq> [] \<longrightarrow> get_average s = Some (mean (map snd (marks s)))"
    by (simp add: get_average_def mean_def)
  from 1 2 3 show ?thesis by blast
qed

theorem class_average_is_mean_of_averages_witness:
  "class_average sample_data = Some (((85 + 78 + 90) / 3 + (65 + 70) / 2 + (92 + 88 + 85) / 3) / 3) \<and>
   class_average (snd (add_student sample_data (Student_init ''Dev'' 104 None)))
     = class_average sample_data \<and>
   class_average (snd (add_student Gradebook_init (Student_init ''Dev'' 104 None))) = None"
proof -
  let ?g = "snd (add_student sample_data (Student_init ''Dev'' 104 None))"
  let ?e = "snd (add_student Gradebook_init (Student_init ''Dev'' 104 None))"
  have g: "students ?g = students sample_data @ [(104, \<lparr>name = ''Dev'', roll = 104, marks = []\<rparr>)]"
    by (simp add: add_student_def Student_init_def sample_students strip_def is_space_def)
  have e: "students ?e = [(104, \<lparr>name = ''Dev'', roll = 104, marks = []\<rparr>)]"
    by (simp add: add_student_def Student_init_def Gradebook_init_def strip_def is_space_def)
  have "class_average_spec sample_data
      = Some (((85 + 78 + 90) / 3 + (65 + 70) / 2 + (92 + 88 + 85) / 3) / 3)"
    by (simp add: class_average_spec_def sample_students mean_def)
  moreover have "class_average_spec ?g = class_average_spec sample_data"
    by (simp add: class_average_spec_def g)
  moreover have "class_average_spec ?e = None"
    by (simp add: class_average_spec_def e)
  ultimately show ?thesis
    using class_average_is_mean_of_averages [of sample_data]
      class_average_is_mean_of_averages [of ?g]
      class_average_is_mean_of_averages [of ?e]
    by simp
qed

text \<open>
  C4. The distribution has the five buckets A, B, C, D and F in this order, and the count of
  a bucket is the number of records whose average meets the condition of the bucket (F
  also takes the records without marks). Every record meets the condition of exactly one
  bucket, the five counts add up to the number of records, and the empty gradebook gives
  zero everywhere.
\<close>

theorem grade_distribution_partition:
  "grade_distribution gb =
     map (\<lambda>b. (b, length (filter (in_bucket b) (map snd (students gb)))))
       [''A'', ''B'', ''C'', ''D'', ''F''] \<and>
   sum_list (map snd (grade_distribution gb)) = length (students gb) \<and>
   (\<exists>!b. in_bucket b s) \<and>
   (in_bucket b s \<longrightarrow> b \<in> set [''A'', ''B'', ''C'', ''D'', ''F'']) \<and>
   grade_distribution Gradebook_init = [(''A'', 0), (''B'', 0), (''C'', 0), (''D'', 0), (''F'', 0)]"
proof -
  have 1: "grade_distribution gb =
     map (\<lambda>b. (b, length (filter (in_bucket b) (map snd (students gb)))))
       [''A'', ''B'', ''C'', ''D'', ''F'']"
    by (simp add: grade_distribution_def grade_loop_counts)
  have 2: "sum_list (map snd (grade_distribution gb)) = length (students gb)"
    using bucket_sizes_sum [of "map snd (students gb)"] by (simp add: 1)
  have 3: "in_bucket b s \<longrightarrow> b \<in> set [''A'', ''B'', ''C'', ''D'', ''F'']"
    by (auto simp: in_bucket_def split: option.splits)
  have 4: "grade_distribution Gradebook_init
      = [(''A'', 0), (''B'', 0), (''C'', 0), (''D'', 0), (''F'', 0)]"
    by (simp add: grade_distribution_def Gradebook_init_def)
  from 1 2 3 4 in_bucket_unique [of s] show ?thesis by blast
qed

theorem grade_distribution_partition_witness:
  "in_bucket ''B'' \<lparr>name = ''Bala Rao'', roll = 102, marks = [(''Math'', 65), (''Physics'', 70)]\<rparr> \<and>
   ''B'' \<in> set [''A'', ''B'', ''C'', ''D'', ''F''] \<and>
   grade_distribution sample_data = [(''A'', 2), (''B'', 1), (''C'', 0), (''D'', 0), (''F'', 0)] \<and>
   sum_list (map snd (grade_distribution sample_data)) = 3"
proof -
  let ?bala = "\<lparr>name = ''Bala Rao'', roll = 102, marks = [(''Math'', 65), (''Physics'', 70)]\<rparr>"
  have h: "in_bucket ''B'' ?bala"
    by (simp add: in_bucket_def get_average_def)
  have c: "map (\<lambda>b. (b, length (filter (in_bucket b) (map snd (students sample_data)))))
             [''A'', ''B'', ''C'', ''D'', ''F'']
           = [(''A'', 2), (''B'', 1), (''C'', 0), (''D'', 0), (''F'', 0)]"
    by (simp add: sample_students in_bucket_def get_average_def)
  from h c grade_distribution_partition [of sample_data ?bala "''B''"]
  show ?thesis by simp
qed

text \<open>
  C6, as the code has it. The result is the slice \<^verbatim>\<open>scored[:n]\<close>, and a negative
  \<^verbatim>\<open>n\<close> counts from the end: with \<^verbatim>\<open>n = -1\<close> the three sample students give the two best
  pairs, not the first \<^verbatim>\<open>-1\<close> (that is, no) pairs.
\<close>

theorem top_n_negative_counterexample:
  "top_n_students sample_data (- 1) =
     [(\<lparr>name = ''Chitra Sen'', roll = 103,
         marks = [(''Math'', 92), (''English'', 88), (''Biology'', 85)]\<rparr>, 265 / 3),
      (\<lparr>name = ''Aman Koli'', roll = 101,
         marks = [(''Math'', 85), (''Physics'', 78), (''Chemistry'', 90)]\<rparr>, 253 / 3)] \<and>
   take (nat (- 1)) (top_n_students sample_data 3) = [] \<and>
   top_n_students sample_data (- 1) \<noteq> take (nat (- 1)) (top_n_students sample_data 3)"
  by (simp add: top_n_students_def slice_to_def or_zero_def get_average_def sample_students)

text \<open>
  C6, amended. For every gradebook and every \<open>n\<close> that is not negative, \<open>top_n_students\<close>
  returns the first \<open>n\<close> pairs (all of them when there are fewer) of the full ranking. The
  full ranking holds one pair for every record, with the average as score, or zero for a
  record without marks, which is ranked and not left out; it is in descending order of
  score.
\<close>

theorem top_n_students_ranking:
  assumes "0 \<le> n"
  shows "top_n_students gb n = take (nat n) (top_n_students gb (int (length (students gb)))) \<and>
     mset (top_n_students gb (int (length (students gb))))
       = mset (map (\<lambda>s. (s, score s)) (map snd (students gb))) \<and>
     sorted_wrt (\<lambda>x y. snd y \<le> snd x) (top_n_students gb (int (length (students gb)))) \<and>
     sorted_wrt (\<lambda>x y. snd y \<le> snd x) (top_n_students gb n) \<and>
     length (top_n_students gb n) = min (nat n) (length (students gb)) \<and>
     (\<forall>p\<in>set (top_n_students gb n).
        snd p = (case get_average (fst p) of None \<Rightarrow> 0 | Some a \<Rightarrow> a))"
proof -
  define scored where "scored = map (\<lambda>s. (s, score s)) (map snd (students gb))"
  define ranked where "ranked = sort_key (\<lambda>x. - snd x) scored"
  have len: "length ranked = length (students gb)"
    by (simp add: ranked_def scored_def)
  have any: "top_n_students gb k = slice_to k ranked" for k
    by (simp add: top_n_students_def or_zero_score ranked_def scored_def)
  have "slice_to (int (length (students gb))) ranked = ranked"
    by (simp add: slice_to_def len)
  then have full: "top_n_students gb (int (length (students gb))) = ranked"
    by (simp only: any)
  have "slice_to n ranked = take (nat n) ranked"
    using assms by (simp add: slice_to_def)
  then have part: "top_n_students gb n = take (nat n) ranked"
    by (simp only: any)
  have s: "sorted_wrt (\<lambda>x y. snd y \<le> snd x) ranked"
    unfolding ranked_def by (rule sorted_desc_sort_key_neg)
  have s': "sorted_wrt (\<lambda>x y. snd y \<le> snd x) (take (nat n) ranked)"
    using s by (rule sorted_wrt_take)
  have m: "mset ranked = mset scored"
    unfolding ranked_def by (rule mset_sort)
  have "set (take (nat n) ranked) \<subseteq> set ranked" by (rule set_take_subset)
  also have "set ranked = set scored" unfolding ranked_def by (rule set_sort)
  finally have sub: "set (take (nat n) ranked) \<subseteq> set scored" .
  have "snd p = score (fst p)" if "p \<in> set scored" for p
    using that unfolding scored_def by auto
  with sub have v: "\<forall>p\<in>set (take (nat n) ranked). snd p = score (fst p)"
    by blast
  have l: "length (take (nat n) ranked) = min (nat n) (length (students gb))"
    by (simp add: len min.commute)
  have c1: "top_n_students gb n = take (nat n) (top_n_students gb (int (length (students gb))))"
    by (simp only: full part)
  have c2: "mset (top_n_students gb (int (length (students gb))))
       = mset (map (\<lambda>s. (s, score s)) (map snd (students gb)))"
    using m by (simp only: full scored_def)
  have c3: "sorted_wrt (\<lambda>x y. snd y \<le> snd x) (top_n_students gb (int (length (students gb))))"
    using s by (simp only: full)
  have c4: "sorted_wrt (\<lambda>x y. snd y \<le> snd x) (top_n_students gb n)"
    using s' by (simp only: part)
  have c5: "length (top_n_students gb n) = min (nat n) (length (students gb))"
    using l by (simp only: part)
  have c6: "\<forall>p\<in>set (top_n_students gb n).
        snd p = (case get_average (fst p) of None \<Rightarrow> 0 | Some a \<Rightarrow> a)"
    using v by (simp only: part score_def)
  from c1 c2 c3 c4 c5 c6 show ?thesis by (intro conjI)
qed

theorem top_n_students_ranking_witness:
  "(0::int) \<le> 2 \<and>
   top_n_students sample_data 2 =
     [(\<lparr>name = ''Chitra Sen'', roll = 103,
         marks = [(''Math'', 92), (''English'', 88), (''Biology'', 85)]\<rparr>, 265 / 3),
      (\<lparr>name = ''Aman Koli'', roll = 101,
         marks = [(''Math'', 85), (''Physics'', 78), (''Chemistry'', 90)]\<rparr>, 253 / 3)] \<and>
   top_n_students sample_data 2 = take (nat 2) (top_n_students sample_data 3) \<and>
   length (top_n_students sample_data 2) = 2"
proof -
  have h: "(0::int) \<le> 2" by simp
  have l: "int (length (students sample_data)) = 3" by (simp add: sample_students)
  have e: "top_n_students sample_data 2 =
     [(\<lparr>name = ''Chitra Sen'', roll = 103,
         marks = [(''Math'', 92), (''English'', 88), (''Biology'', 85)]\<rparr>, 265 / 3),
      (\<lparr>name = ''Aman Koli'', roll = 101,
         marks = [(''Math'', 85), (''Physics'', 78), (''Chemistry'', 90)]\<rparr>, 253 / 3)]"
    by (simp add: top_n_students_def slice_to_def or_zero_def get_average_def sample_students)
  have t: "top_n_students sample_data 2 = take (nat 2) (top_n_students sample_data 3)"
    using top_n_students_ranking [OF h, of sample_data] by (simp only: l)
  from h e t show ?thesis by simp
qed

text \<open>
  C8. The header of the table is \<open>roll\<close>, \<open>name\<close>, the subjects and \<open>average\<close>, where the
  subjects are the names that occur in the marks of any record, each once, in ascending
  order of strings. There is one row for every record, in ascending order of roll. A row
  starts with the roll and the name, has under every subject the score of the record for
  it or the empty string, and ends with the formatted average or the empty string when
  the record has no marks.
\<close>

theorem export_to_csv_table:
  "fst (export_to_csv fmt2f gb) = [''roll'', ''name''] @ all_subjects gb @ [''average''] \<and>
   sorted (all_subjects gb) \<and> distinct (all_subjects gb) \<and>
   set (all_subjects gb) = (\<Union>s\<in>set (map snd (students gb)). fst ` set (marks s)) \<and>
   snd (export_to_csv fmt2f gb)
     = map (csv_row fmt2f (all_subjects gb)) (list_all_students gb) \<and>
   length (snd (export_to_csv fmt2f gb)) = length (students gb) \<and>
   sorted (map roll (list_all_students gb)) \<and>
   mset (list_all_students gb) = mset (map snd (students gb)) \<and>
   length (csv_row fmt2f subs s) = length subs + 3 \<and>
   csv_row fmt2f subs s ! 0 = CInt (roll s) \<and>
   csv_row fmt2f subs s ! 1 = CStr (name s) \<and>
   (\<forall>i<length subs. csv_row fmt2f subs s ! (i + 2)
       = (case map_of (marks s) (subs ! i) of None \<Rightarrow> CStr [] | Some m \<Rightarrow> CNum m)) \<and>
   csv_row fmt2f subs s ! (length subs + 2)
       = (case get_average s of None \<Rightarrow> CStr [] | Some avg \<Rightarrow> CStr (fmt2f avg))"
proof -
  have h: "fst (export_to_csv fmt2f gb) = [''roll'', ''name''] @ all_subjects gb @ [''average'']"
    by (simp add: export_to_csv_def Let_def)
  have r: "snd (export_to_csv fmt2f gb)
     = map (csv_row fmt2f (all_subjects gb)) (list_all_students gb)"
    by (simp add: export_to_csv_def Let_def)
  have l: "length (snd (export_to_csv fmt2f gb)) = length (students gb)"
    using list_all_students_props [of gb] by (simp add: r)
  from h r l all_subjects_props [of gb] list_all_students_props [of gb]
    csv_row_cells [of fmt2f subs s]
  show ?thesis by blast
qed

theorem export_to_csv_table_witness:
  "\<forall>fmt2f. export_to_csv fmt2f sample_data =
     ([''roll'', ''name'', ''Biology'', ''Chemistry'', ''English'', ''Math'', ''Physics'',
       ''average''],
      [[CInt 101, CStr ''Aman Koli'', CStr [], CNum 90, CStr [], CNum 85, CNum 78,
        CStr (fmt2f ((85 + 78 + 90) / 3))],
       [CInt 102, CStr ''Bala Rao'', CStr [], CStr [], CStr [], CNum 65, CNum 70,
        CStr (fmt2f ((65 + 70) / 2))],
       [CInt 103, CStr ''Chitra Sen'', CNum 85, CStr [], CNum 88, CNum 92, CStr [],
        CStr (fmt2f ((92 + 88 + 85) / 3))]])"
proof
  fix fmt2f :: "real \<Rightarrow> string"
  let ?subs = "[''Biology'', ''Chemistry'', ''English'', ''Math'', ''Physics'']"
  have la: "list_all_students sample_data = map snd (students sample_data)"
    by (simp add: list_all_students_def sample_students)
  have rows: "map (csv_row fmt2f ?subs) (map snd (students sample_data)) =
      [[CInt 101, CStr ''Aman Koli'', CStr [], CNum 90, CStr [], CNum 85, CNum 78,
        CStr (fmt2f ((85 + 78 + 90) / 3))],
       [CInt 102, CStr ''Bala Rao'', CStr [], CStr [], CStr [], CNum 65, CNum 70,
        CStr (fmt2f ((65 + 70) / 2))],
       [CInt 103, CStr ''Chitra Sen'', CNum 85, CStr [], CNum 88, CNum 92, CStr [],
        CStr (fmt2f ((92 + 88 + 85) / 3))]]"
    by (simp add: csv_row_def get_average_def sample_students)
  have "fst (export_to_csv fmt2f sample_data) = [''roll'', ''name''] @ ?subs @ [''average'']"
    and "snd (export_to_csv fmt2f sample_data)
      = map (csv_row fmt2f ?subs) (map snd (students sample_data))"
    using export_to_csv_table [of fmt2f sample_data ?subs "snd (hd (students sample_data))"]
    by (simp_all only: sample_subjects la)
  with rows show "export_to_csv fmt2f sample_data =
     ([''roll'', ''name'', ''Biology'', ''Chemistry'', ''English'', ''Math'', ''Physics'',
       ''average''],
      [[CInt 101, CStr ''Aman Koli'', CStr [], CNum 90, CStr [], CNum 85, CNum 78,
        CStr (fmt2f ((85 + 78 + 90) / 3))],
       [CInt 102, CStr ''Bala Rao'', CStr [], CStr [], CStr [], CNum 65, CNum 70,
        CStr (fmt2f ((65 + 70) / 2))],
       [CInt 103, CStr ''Chitra Sen'', CNum 85, CStr [], CNum 88, CNum 92, CStr [],
        CStr (fmt2f ((92 + 88 + 85) / 3))]])"
    by (simp add: prod_eq_iff)
qed

end
